theory Spec2Isabelle
  imports Main
begin

section \<open>Strings\<close>

text \<open>
  Python strings are modelled as lists of 8-bit characters, read as the code points
  below 256. On that range \<^verbatim>\<open>str.isspace\<close> holds for the code points 9-13, 28-32, 133
  and 160, and \<^verbatim>\<open>str.lower\<close> adds 32 to the code points 65-90 and 192-222 (215 apart)
  and leaves every other one alone.
\<close>

definition is_space :: "char \<Rightarrow> bool" where
  "is_space c =
     (let n = (of_char c :: nat)
      in (9 \<le> n \<and> n \<le> 13) \<or> (28 \<le> n \<and> n \<le> 32) \<or> n = 133 \<or> n = 160)"

definition str_strip :: "string \<Rightarrow> string" where
  "str_strip s = rev (dropWhile is_space (rev (dropWhile is_space s)))"

definition lower_char :: "char \<Rightarrow> char" where
  "lower_char c =
     (let n = (of_char c :: nat)
      in if (65 \<le> n \<and> n \<le> 90) \<or> (192 \<le> n \<and> n \<le> 222 \<and> n \<noteq> 215)
         then char_of (n + 32) else c)"

definition str_lower :: "string \<Rightarrow> string" where
  "str_lower s = map lower_char s"

text \<open>\<^verbatim>\<open>sep.join(xs)\<close>.\<close>

fun str_join :: "string \<Rightarrow> string list \<Rightarrow> string" where
  "str_join sep [] = []"
| "str_join sep [x] = x"
| "str_join sep (x # y # ys) = x @ sep @ str_join sep (y # ys)"

text \<open>The decimal rendering of an integer, as an f-string prints it.\<close>

definition digit_char :: "nat \<Rightarrow> char" where
  "digit_char d = char_of (48 + d)"

fun str_nat :: "nat \<Rightarrow> string" where
  "str_nat n = (if n < 10 then [digit_char n] else str_nat (n div 10) @ [digit_char (n mod 10)])"

declare str_nat.simps [simp del]

definition str_int :: "int \<Rightarrow> string" where
  "str_int i = (if i < 0 then CHR ''-'' # str_nat (nat (- i)) else str_nat (nat i))"

definition squote :: char where
  "squote = CHR 0x27"

definition dquote :: char where
  "dquote = CHR 0x22"

definition backslash :: char where
  "backslash = CHR 0x5C"

section \<open>The standard library's shlex\<close>

text \<open>
  \<^verbatim>\<open>shlex.quote\<close>: the empty string becomes two single quotes, a string of safe
  characters only (ASCII letters, digits and \<^verbatim>\<open>_@%+=:,./-\<close>) is returned as it is, and
  any other string is wrapped in single quotes, each single quote inside it replaced by
  a single quote, a double-quoted single quote and a single quote.
\<close>

definition safe_char :: "char \<Rightarrow> bool" where
  "safe_char c =
     (let n = (of_char c :: nat)
      in (97 \<le> n \<and> n \<le> 122) \<or> (65 \<le> n \<and> n \<le> 90) \<or> (48 \<le> n \<and> n \<le> 57)
         \<or> c \<in> set ''_@%+=:,./-'')"

definition shlex_quote :: "string \<Rightarrow> string" where
  "shlex_quote s =
     (if s = [] then [squote, squote]
      else if list_all safe_char s then s
      else [squote]
           @ concat (map (\<lambda>c. if c = squote then [squote, dquote, squote, dquote, squote]
                                else [c]) s)
           @ [squote])"

text \<open>
  \<^verbatim>\<open>shlex.split(s)\<close> runs the lexer in POSIX mode with \<^verbatim>\<open>whitespace_split\<close> set and no
  comment characters. The lexer's \<^verbatim>\<open>read_token\<close> is a state machine over the input
  characters; its state is blank (between tokens), inside a word, inside a quotation
  (with the quote character) or after an escape character. The state it returns to
  after an escape is kept in \<^verbatim>\<open>escapedstate\<close>. End of input inside a quotation or
  after an escape raises ValueError, here the left summand with the message.
\<close>

datatype lex_state = LBlank | LWord | LQuote char | LEscape char

definition shlex_whitespace :: "char \<Rightarrow> bool" where
  "shlex_whitespace c = (c \<in> set [CHR '' '', CHR 0x09, CHR 0x0D, CHR 0x0A])"

definition shlex_quotes :: "char \<Rightarrow> bool" where
  "shlex_quotes c = (c = squote \<or> c = dquote)"

definition shlex_escape :: "char \<Rightarrow> bool" where
  "shlex_escape c = (c = backslash)"

definition shlex_escapedquotes :: "char \<Rightarrow> bool" where
  "shlex_escapedquotes c = (c = dquote)"

definition emit_token :: "string \<Rightarrow> bool \<Rightarrow> string list" where
  "emit_token token quoted = (if \<not> quoted \<and> token = [] then [] else [token])"

fun read_tokens ::
  "lex_state \<Rightarrow> lex_state \<Rightarrow> string \<Rightarrow> bool \<Rightarrow> string \<Rightarrow> string + string list" where
  "read_tokens LBlank escapedstate token quoted [] = Inr (emit_token token quoted)"
| "read_tokens LWord escapedstate token quoted [] = Inr (emit_token token quoted)"
| "read_tokens (LQuote q) escapedstate token quoted [] = Inl ''No closing quotation''"
| "read_tokens (LEscape e) escapedstate token quoted [] = Inl ''No escaped character''"
| "read_tokens LBlank escapedstate token quoted (c # cs) =
     (if shlex_whitespace c then
        (if token \<noteq> [] \<or> quoted
         then map_sum id ((#) token) (read_tokens LBlank LBlank [] False cs)
         else read_tokens LBlank escapedstate token quoted cs)
      else if shlex_escape c then read_tokens (LEscape c) LWord token quoted cs
      else if shlex_quotes c then read_tokens (LQuote c) escapedstate token quoted cs
      else read_tokens LWord escapedstate [c] quoted cs)"
| "read_tokens (LQuote q) escapedstate token quoted (c # cs) =
     (if c = q then read_tokens LWord escapedstate token True cs
      else if shlex_escape c \<and> shlex_escapedquotes q
      then read_tokens (LEscape c) (LQuote q) token True cs
      else read_tokens (LQuote q) escapedstate (token @ [c]) True cs)"
| "read_tokens (LEscape e) escapedstate token quoted (c # cs) =
     (let token' =
            (case escapedstate of
               LQuote q \<Rightarrow> (if c \<noteq> e \<and> c \<noteq> q then token @ [e] else token)
             | _ \<Rightarrow> token)
      in read_tokens escapedstate escapedstate (token' @ [c]) quoted cs)"
| "read_tokens LWord escapedstate token quoted (c # cs) =
     (if shlex_whitespace c then
        (if token \<noteq> [] \<or> quoted
         then map_sum id ((#) token) (read_tokens LBlank LBlank [] False cs)
         else read_tokens LBlank escapedstate token quoted cs)
      else if shlex_quotes c then read_tokens (LQuote c) escapedstate token quoted cs
      else if shlex_escape c then read_tokens (LEscape c) LWord token quoted cs
      else read_tokens LWord escapedstate (token @ [c]) quoted cs)"

definition shlex_split :: "string \<Rightarrow> string + string list" where
  "shlex_split s = read_tokens LBlank LBlank [] False s"

section \<open>Processes, exceptions and the host\<close>

text \<open>
  \<^verbatim>\<open>CmdType = Union[str, List[str]]\<close>: a command is an argument list or one string.
\<close>

datatype cmd = CmdList "string list" | CmdStr string

text \<open>One call of \<^verbatim>\<open>subprocess.run\<close>, with the arguments the runner passes.\<close>

record invocation =
  inv_args :: cmd
  inv_shell :: bool
  inv_cwd :: "string option"
  inv_timeout :: int

text \<open>
  The exception classes that matter to the runner's handlers. All but
  \<open>KeyboardInterrupt\<close> derive from \<^verbatim>\<open>Exception\<close>; \<open>OtherException\<close> stands for any
  further subclass of \<^verbatim>\<open>Exception\<close>. An exception carries its message, \<^verbatim>\<open>str(e)\<close>.
\<close>

datatype exc_class =
  TimeoutExpired | FileNotFoundError | PermissionError | OSError | ValueError
  | OtherException | KeyboardInterrupt

datatype py_exception = Exc exc_class string

definition is_Exception :: "exc_class \<Rightarrow> bool" where
  "is_Exception k = (k \<noteq> KeyboardInterrupt)"

record completed_process =
  proc_stdout :: string
  proc_stderr :: string
  proc_returncode :: int

datatype outcome = Completed completed_process | Raised py_exception

text \<open>
  What a request does to the world, in order: the calls of \<^verbatim>\<open>subprocess.run\<close> and, for
  the HTTP endpoint, the temporary directory and the file written into it.
\<close>

datatype event =
  SubprocessRun invocation
  | TempDirCreated string
  | FileWritten string string
  | TempDirRemoved string

text \<open>
  The host: \<^verbatim>\<open>os.name == "nt"\<close>, \<^verbatim>\<open>shutil.which\<close> and \<^verbatim>\<open>subprocess.run\<close>. The last two
  may answer differently as the request proceeds, so they read the events so far.
\<close>

record host =
  os_nt :: bool
  shutil_which :: "event list \<Rightarrow> string \<Rightarrow> string option"
  subprocess_run :: "event list \<Rightarrow> invocation \<Rightarrow> outcome"

text \<open>
  The host's pathlib flavour: \<^verbatim>\<open>str(Path(s))\<close>, \<^verbatim>\<open>str(Path(s).parent)\<close>,
  \<^verbatim>\<open>Path(s).stem\<close>, \<^verbatim>\<open>Path(s).suffix\<close> and \<^verbatim>\<open>str(Path(a) / b)\<close>.
\<close>

record pathlib =
  path_str :: "string \<Rightarrow> string"
  path_parent :: "string \<Rightarrow> string"
  path_stem :: "string \<Rightarrow> string"
  path_suffix :: "string \<Rightarrow> string"
  path_join :: "string \<Rightarrow> string \<Rightarrow> string"

section \<open>runner.py\<close>

text \<open>The result tuple \<^verbatim>\<open>(stdout, stderr, returncode, executed_cmd_string)\<close>.\<close>

type_synonym result = "string \<times> string \<times> int \<times> string"

text \<open>\<^verbatim>\<open>s or d\<close> on strings.\<close>

definition str_or :: "string \<Rightarrow> string \<Rightarrow> string" where
  "str_or s d = (if s = [] then d else s)"

text \<open>
  The three \<^verbatim>\<open>except\<close> clauses of \<open>run_command\<close>, in their order. An exception no
  clause catches leaves the function: the left summand.
\<close>

definition run_command_except :: "int \<Rightarrow> string \<Rightarrow> py_exception \<Rightarrow> py_exception + result" where
  "run_command_except timeout executed e =
     (case e of Exc k msg \<Rightarrow>
        if k = TimeoutExpired then
          Inr ('''', ''TimeoutExpired: process exceeded '' @ str_int timeout @ '' seconds'',
               124, executed)
        else if k = FileNotFoundError then
          Inr ('''',
               ''RunnerError: [WinError 2] The system cannot find the file specified: '' @ msg,
               125, executed)
        else if is_Exception k then
          Inr ('''', ''RunnerError: '' @ msg, 125, executed)
        else Inl e)"

text \<open>
  The call of \<^verbatim>\<open>subprocess.run\<close> and the \<^verbatim>\<open>return\<close> after it, inside the \<^verbatim>\<open>try\<close>.
\<close>

definition run_process ::
  "host \<Rightarrow> event list \<Rightarrow> invocation \<Rightarrow> int \<Rightarrow> string \<Rightarrow> (py_exception + result) \<times> event list" where
  "run_process h tr call timeout executed =
     (case subprocess_run h tr call of
        Completed proc \<Rightarrow>
          Inr (str_or (proc_stdout proc) '''', str_or (proc_stderr proc) '''',
               proc_returncode proc, executed)
      | Raised e \<Rightarrow> run_command_except timeout executed e,
      tr @ [SubprocessRun call])"

definition run_command ::
  "host \<Rightarrow> event list \<Rightarrow> cmd \<Rightarrow> string option \<Rightarrow> int \<Rightarrow> (py_exception + result) \<times> event list" where
  "run_command h tr cmd cwd timeout =
     (case cmd of
        CmdList xs \<Rightarrow>
          run_process h tr
            \<lparr>inv_args = CmdList xs, inv_shell = False, inv_cwd = cwd, inv_timeout = timeout\<rparr>
            timeout (str_join '' '' (map shlex_quote xs))
      | CmdStr s \<Rightarrow>
          if os_nt h then
            run_process h tr
              \<lparr>inv_args = CmdStr s, inv_shell = True, inv_cwd = cwd, inv_timeout = timeout\<rparr>
              timeout s
          else
            (case shlex_split s of
               Inl msg \<Rightarrow> (run_command_except timeout s (Exc ValueError msg), tr)
             | Inr args \<Rightarrow>
                 run_process h tr
                   \<lparr>inv_args = CmdList args, inv_shell = False, inv_cwd = cwd,
                    inv_timeout = timeout\<rparr>
                   timeout (str_join '' '' (map shlex_quote args))))"

definition is_executable_available :: "host \<Rightarrow> event list \<Rightarrow> string \<Rightarrow> bool" where
  "is_executable_available h tr name = (shutil_which h tr name \<noteq> None)"

definition make_executable_path :: "host \<Rightarrow> pathlib \<Rightarrow> string \<Rightarrow> string \<Rightarrow> string" where
  "make_executable_path h pl cwd name =
     (if os_nt h then path_join pl cwd (name @ ''.exe'') else path_join pl cwd name)"

text \<open>
  \<^verbatim>\<open>shutil.which("python") or shutil.which("python3")\<close>, followed by \<^verbatim>\<open>if python_bin:\<close>:
  the first of the two answers that is neither \<^verbatim>\<open>None\<close> nor empty.
\<close>

definition truthy :: "string option \<Rightarrow> bool" where
  "truthy x = (case x of None \<Rightarrow> False | Some s \<Rightarrow> s \<noteq> [])"

definition find_python :: "host \<Rightarrow> event list \<Rightarrow> string option" where
  "find_python h tr =
     (let python_bin =
            (if truthy (shutil_which h tr ''python'') then shutil_which h tr ''python''
             else shutil_which h tr ''python3'')
      in if truthy python_bin then python_bin else None)"

text \<open>The compiler chosen for C or C++: g++ then clang++, or gcc then clang.\<close>

definition select_compiler :: "host \<Rightarrow> event list \<Rightarrow> bool \<Rightarrow> string option" where
  "select_compiler h tr is_cpp =
     (if is_cpp then
        (if is_executable_available h tr ''g++'' then Some ''g++''
         else if is_executable_available h tr ''clang++'' then Some ''clang++''
         else None)
      else
        (if is_executable_available h tr ''gcc'' then Some ''gcc''
         else if is_executable_available h tr ''clang'' then Some ''clang''
         else None))"

definition c_compile_cmd :: "pathlib \<Rightarrow> string \<Rightarrow> bool \<Rightarrow> string \<Rightarrow> string \<Rightarrow> string list" where
  "c_compile_cmd pl p is_cpp compiler exe_path =
     [compiler, path_str pl p, ''-o'', exe_path]
     @ (if is_cpp \<and> (compiler = ''g++'' \<or> compiler = ''clang++'') then [''-std=c++17'']
        else [])"

definition java_compile_cmd :: "pathlib \<Rightarrow> string \<Rightarrow> string list" where
  "java_compile_cmd pl p = [''javac'', path_str pl p]"

definition java_run_cmd :: "pathlib \<Rightarrow> string \<Rightarrow> string list" where
  "java_run_cmd pl p = [''java'', ''-cp'', path_parent pl p, path_stem pl p]"

definition run_linter_for_language ::
  "host \<Rightarrow> pathlib \<Rightarrow> event list \<Rightarrow> string \<Rightarrow> string \<Rightarrow> int
   \<Rightarrow> (py_exception + result) \<times> event list" where
  "run_linter_for_language h pl tr file_path language timeout =
     (let p = file_path;
          cwd = path_parent pl p;
          lang = str_lower (str_strip language)
      in
      if lang = ''python'' \<or> lang = ''py'' then
        (case find_python h tr of
           Some python_bin \<Rightarrow>
             run_command h tr (CmdList [python_bin, path_str pl p]) (Some cwd) timeout
         | None \<Rightarrow>
             if is_executable_available h tr ''pylint'' then
               run_command h tr (CmdList [''pylint'', path_str pl p]) (Some cwd) timeout
             else (Inr ('''', ''No python interpreter or pylint found on PATH.'', 125, ''''), tr))
      else if lang = ''javascript'' \<or> lang = ''js'' \<or> lang = ''node'' then
        (if is_executable_available h tr ''node'' then
           run_command h tr (CmdList [''node'', path_str pl p]) (Some cwd) timeout
         else if is_executable_available h tr ''eslint'' then
           run_command h tr (CmdList [''eslint'', path_str pl p]) (Some cwd) timeout
         else (Inr ('''', ''No node or eslint found on PATH.'', 125, ''''), tr))
      else if lang = ''java'' then
        (if \<not> is_executable_available h tr ''javac'' then
           (Inr ('''', ''No javac found on PATH. Please install JDK and add javac to PATH.'',
                 125, ''''), tr)
         else
           (case run_command h tr (CmdList (java_compile_cmd pl p)) (Some cwd) timeout of
              (Inl e, tr1) \<Rightarrow> (Inl e, tr1)
            | (Inr (out_c, err_c, rc_c, executed_compile), tr1) \<Rightarrow>
                if rc_c \<noteq> 0 then (Inr (out_c, err_c, rc_c, executed_compile), tr1)
                else if \<not> is_executable_available h tr1 ''java'' then
                  (Inr (out_c,
                        ''Compiled but '' @ [CHR 0x60] @ ''java'' @ [CHR 0x60]
                          @ '' runtime not found on PATH.'',
                        125, executed_compile), tr1)
                else
                  (case run_command h tr1 (CmdList (java_run_cmd pl p)) (Some cwd) timeout of
                     (Inl e, tr2) \<Rightarrow> (Inl e, tr2)
                   | (Inr (out_r, err_r, rc_r, executed_run), tr2) \<Rightarrow>
                       (Inr (out_r, err_r, rc_r, executed_compile @ '' ; '' @ executed_run),
                        tr2))))
      else if lang = ''c'' \<or> lang = ''cpp'' \<or> lang = ''c++'' then
        (let is_cpp = (lang = ''cpp'' \<or> lang = ''c++'') in
         case select_compiler h tr is_cpp of
           None \<Rightarrow>
             (Inr ('''', ''No C/C++ compiler found on PATH. Install gcc/g++ or clang.'',
                   125, ''''), tr)
         | Some compiler \<Rightarrow>
             (let exe_path = make_executable_path h pl cwd ''a_out_exec'' in
              case run_command h tr (CmdList (c_compile_cmd pl p is_cpp compiler exe_path))
                     (Some cwd) timeout of
                (Inl e, tr1) \<Rightarrow> (Inl e, tr1)
              | (Inr (out_c, err_c, rc_c, executed_compile), tr1) \<Rightarrow>
                  if rc_c \<noteq> 0 then (Inr (out_c, err_c, rc_c, executed_compile), tr1)
                  else
                    (case run_command h tr1 (CmdList [exe_path]) (Some cwd) timeout of
                       (Inl e, tr2) \<Rightarrow> (Inl e, tr2)
                     | (Inr (out_r, err_r, rc_r, executed_run), tr2) \<Rightarrow>
                         (Inr (out_r, err_r, rc_r, executed_compile @ '' ; '' @ executed_run),
                          tr2))))
      else
        (case (if path_suffix pl p = ''.py'' then find_python h tr else None) of
           Some python_bin \<Rightarrow>
             run_command h tr (CmdList [python_bin, path_str pl p]) (Some cwd) timeout
         | None \<Rightarrow>
             (Inr ('''', ''No runner available for language '' @ [squote] @ language
                         @ [squote] @ ''.'', 125, ''''), tr)))"

section \<open>api.py\<close>

datatype json = JNull | JString string | JNumber int

text \<open>
  The body of a POST to \<^verbatim>\<open>/run\<close> that passes validation: the three fields the model
  class \<^verbatim>\<open>RunRequest\<close> declares and the other keys of the JSON object. The model class
  keeps the declared fields and drops every other key.
\<close>

record run_body =
  body_language :: string
  body_filename :: "string option"
  body_code :: string
  body_other :: "(string \<times> json) list"

record RunRequest =
  req_language :: string
  req_filename :: "string option"
  req_code :: string

definition parse_RunRequest :: "run_body \<Rightarrow> RunRequest" where
  "parse_RunRequest b =
     \<lparr>req_language = body_language b, req_filename = body_filename b, req_code = body_code b\<rparr>"

record run_response =
  resp_stdout :: string
  resp_stderr :: string
  resp_rc :: int
  resp_executed_cmd :: string
  resp_used_filename :: string

text \<open>
  The temporary directory and the file of a request: \<^verbatim>\<open>tempfile.TemporaryDirectory()\<close>,
  \<^verbatim>\<open>os.path.join\<close> and \<^verbatim>\<open>open(file_path, "w")\<close> with the write, each of which the host
  may refuse with an exception. Removing the directory at the end of the \<^verbatim>\<open>with\<close> block
  is taken to succeed.
\<close>

record tempfs =
  mkdtemp :: "event list \<Rightarrow> py_exception + string"
  os_path_join :: "string \<Rightarrow> string \<Rightarrow> string"
  open_write :: "event list \<Rightarrow> string \<Rightarrow> string \<Rightarrow> py_exception option"

definition extension_table :: "(string \<times> string) list" where
  "extension_table =
     [(''python'', ''.py''), (''javascript'', ''.js''), (''java'', ''.java''),
      (''c'', ''.c''), (''cpp'', ''.cpp''), (''c++'', ''.cpp'')]"

definition run_code ::
  "host \<Rightarrow> pathlib \<Rightarrow> tempfs \<Rightarrow> event list \<Rightarrow> RunRequest
   \<Rightarrow> (py_exception + run_response) \<times> event list" where
  "run_code h pl fs tr req =
     (let lang = str_lower (req_language req);
          ext = (case map_of extension_table lang of Some e \<Rightarrow> e | None \<Rightarrow> ''.txt'')
      in
      case mkdtemp fs tr of
        Inl e \<Rightarrow> (Inl e, tr)
      | Inr td \<Rightarrow>
          (let tr1 = tr @ [TempDirCreated td];
               file_path =
                 os_path_join fs td
                   (case req_filename req of
                      None \<Rightarrow> ''main'' @ ext
                    | Some f \<Rightarrow> if f = [] then ''main'' @ ext else f)
           in
           case open_write fs tr1 file_path (req_code req) of
             Some e \<Rightarrow> (Inl e, tr1 @ [TempDirRemoved td])
           | None \<Rightarrow>
               (case run_linter_for_language h pl
                       (tr1 @ [FileWritten file_path (req_code req)]) file_path lang 30 of
                  (Inl e, tr2) \<Rightarrow> (Inl e, tr2 @ [TempDirRemoved td])
                | (Inr (stdout, stderr, rc, executed_cmd), tr2) \<Rightarrow>
                    (Inr \<lparr>resp_stdout = stdout, resp_stderr = stderr, resp_rc = rc,
                          resp_executed_cmd = executed_cmd, resp_used_filename = file_path\<rparr>,
                     tr2 @ [TempDirRemoved td]))))"

text \<open>The endpoint: validation of the body, then \<open>run_code\<close>.\<close>

definition post_run ::
  "host \<Rightarrow> pathlib \<Rightarrow> tempfs \<Rightarrow> event list \<Rightarrow> run_body
   \<Rightarrow> (py_exception + run_response) \<times> event list" where
  "post_run h pl fs tr body = run_code h pl fs tr (parse_RunRequest body)"

text \<open>The calls of \<^verbatim>\<open>subprocess.run\<close> among some events.\<close>

fun subprocess_calls :: "event list \<Rightarrow> invocation list" where
  "subprocess_calls [] = []"
| "subprocess_calls (SubprocessRun call # evs) = call # subprocess_calls evs"
| "subprocess_calls (_ # evs) = subprocess_calls evs"

section \<open>A POSIX host\<close>

text \<open>
  pathlib's POSIX flavour on one path string. A path is parsed into its root (empty,
  one slash, or two slashes when the string starts with exactly two) and its
  components, the empty ones and the dots left out.
\<close>

fun split_on :: "char \<Rightarrow> string \<Rightarrow> string list" where
  "split_on sep [] = [[]]"
| "split_on sep (c # cs) =
     (if c = sep then [] # split_on sep cs
      else (case split_on sep cs of [] \<Rightarrow> [[c]] | w # ws \<Rightarrow> (c # w) # ws))"

definition posix_parse :: "string \<Rightarrow> string \<times> string list" where
  "posix_parse s =
     (let stripped = dropWhile (\<lambda>c. c = CHR ''/'') s;
          n = length s - length stripped;
          root = (if n = 0 then '''' else if n = 2 then ''//'' else ''/'')
      in (root, filter (\<lambda>x. x \<noteq> [] \<and> x \<noteq> ''.'') (split_on CHR ''/'' stripped)))"

definition posix_format :: "string \<times> string list \<Rightarrow> string" where
  "posix_format pp =
     (let s = fst pp @ str_join ''/'' (snd pp) in if s = [] then ''.'' else s)"

definition posix_name :: "string \<times> string list \<Rightarrow> string" where
  "posix_name pp = (if snd pp = [] then '''' else last (snd pp))"

text \<open>\<^verbatim>\<open>name.rfind('.')\<close>, when there is a dot.\<close>

definition rfind_dot :: "string \<Rightarrow> nat option" where
  "rfind_dot name =
     (let k = length (takeWhile (\<lambda>c. c \<noteq> CHR ''.'') (rev name))
      in if k = length name then None else Some (length name - 1 - k))"

definition posix_suffix :: "string \<Rightarrow> string" where
  "posix_suffix s =
     (let name = posix_name (posix_parse s)
      in case rfind_dot name of
           None \<Rightarrow> ''''
         | Some i \<Rightarrow> if 0 < i \<and> i + 1 < length name then drop i name else '''')"

definition posix_stem :: "string \<Rightarrow> string" where
  "posix_stem s =
     (let name = posix_name (posix_parse s)
      in case rfind_dot name of
           None \<Rightarrow> name
         | Some i \<Rightarrow> if 0 < i \<and> i + 1 < length name then take i name else name)"

definition posix_parent :: "string \<Rightarrow> string" where
  "posix_parent s = (let pp = posix_parse s in posix_format (fst pp, butlast (snd pp)))"

definition posix_joinpath :: "string \<Rightarrow> string \<Rightarrow> string" where
  "posix_joinpath a b =
     (let pa = posix_parse a; pb = posix_parse b
      in if fst pb \<noteq> [] then posix_format pb else posix_format (fst pa, snd pa @ snd pb))"

definition posix_pathlib :: pathlib where
  "posix_pathlib =
     \<lparr>path_str = (\<lambda>s. posix_format (posix_parse s)), path_parent = posix_parent,
      path_stem = posix_stem, path_suffix = posix_suffix, path_join = posix_joinpath\<rparr>"

text \<open>
  A host given by two tables: the programs on the search path with the paths they
  resolve to, and the outcome of each argument list that can be run. An argument list
  that is not in the table fails to launch.
\<close>

definition table_host :: "bool \<Rightarrow> (string \<times> string) list \<Rightarrow> (cmd \<times> outcome) list \<Rightarrow> host" where
  "table_host nt installed procs =
     \<lparr>os_nt = nt,
      shutil_which = (\<lambda>tr name. map_of installed name),
      subprocess_run =
        (\<lambda>tr call. case map_of procs (inv_args call) of
                      Some out \<Rightarrow> out
                    | None \<Rightarrow> Raised (Exc FileNotFoundError ''No such file or directory''))\<rparr>"

definition exited :: "string \<Rightarrow> string \<Rightarrow> int \<Rightarrow> outcome" where
  "exited out err rc = Completed \<lparr>proc_stdout = out, proc_stderr = err, proc_returncode = rc\<rparr>"

text \<open>A temporary directory that is always \<^verbatim>\<open>/tmp/w\<close> and a file system that accepts every write.\<close>

definition posix_tempfs :: tempfs where
  "posix_tempfs =
     \<lparr>mkdtemp = (\<lambda>tr. Inr ''/tmp/w''),
      os_path_join =
        (\<lambda>a b. if b \<noteq> [] \<and> hd b = CHR ''/'' then b
                else if a = [] \<or> last a = CHR ''/'' then a @ b
                else a @ ''/'' @ b),
      open_write = (\<lambda>tr path content. None)\<rparr>"

section \<open>The two steps of a compiled language\<close>

text \<open>
  The \<^verbatim>\<open>compile_cmd\<close> that \<open>run_linter_for_language\<close> builds for java (when javac is
  found) and for c, cpp and c++ (when a compiler is found), and the \<^verbatim>\<open>run_cmd\<close> it
  builds after a successful compilation.
\<close>

definition compile_cmd_of ::
  "host \<Rightarrow> pathlib \<Rightarrow> event list \<Rightarrow> string \<Rightarrow> string \<Rightarrow> string list option" where
  "compile_cmd_of h pl tr file_path language =
     (let lang = str_lower (str_strip language) in
      if lang = ''java'' then
        (if is_executable_available h tr ''javac'' then Some (java_compile_cmd pl file_path)
         else None)
      else if lang = ''c'' \<or> lang = ''cpp'' \<or> lang = ''c++'' then
        (case select_compiler h tr (lang = ''cpp'' \<or> lang = ''c++'') of
           None \<Rightarrow> None
         | Some compiler \<Rightarrow>
             Some (c_compile_cmd pl file_path (lang = ''cpp'' \<or> lang = ''c++'') compiler
                     (make_executable_path h pl (path_parent pl file_path) ''a_out_exec'')))
      else None)"

definition run_cmd_of :: "host \<Rightarrow> pathlib \<Rightarrow> string \<Rightarrow> string \<Rightarrow> string list" where
  "run_cmd_of h pl file_path language =
     (if str_lower (str_strip language) = ''java'' then java_run_cmd pl file_path
      else [make_executable_path h pl (path_parent pl file_path) ''a_out_exec''])"

text \<open>The run step needs a toolchain of its own for java only.\<close>

definition run_toolchain_found :: "host \<Rightarrow> event list \<Rightarrow> string \<Rightarrow> bool" where
  "run_toolchain_found h tr language =
     (if str_lower (str_strip language) = ''java'' then is_executable_available h tr ''java''
      else True)"

text \<open>A call of \<^verbatim>\<open>subprocess.run\<close> on an argument list, as \<open>run_command\<close> makes it.\<close>

definition list_call :: "string list \<Rightarrow> string \<Rightarrow> int \<Rightarrow> invocation" where
  "list_call xs cwd timeout =
     \<lparr>inv_args = CmdList xs, inv_shell = False, inv_cwd = Some cwd, inv_timeout = timeout\<rparr>"

text \<open>The language keys the dispatcher knows, after normalisation.\<close>

definition supported_languages :: "string list" where
  "supported_languages =
     [''python'', ''py'', ''javascript'', ''js'', ''node'', ''java'', ''c'', ''cpp'', ''c++'']"

text \<open>
  The spec's table of toolchains: for each language key its preference list, with the
  lint-only fallback where the table has one.
\<close>

definition spec_toolchains :: "string \<Rightarrow> string list" where
  "spec_toolchains lang =
     (if lang = ''python'' \<or> lang = ''py'' then [''python'', ''python3'', ''pylint'']
      else if lang = ''javascript'' \<or> lang = ''js'' \<or> lang = ''node'' then [''node'', ''eslint'']
      else if lang = ''java'' then [''javac'', ''java'']
      else if lang = ''c'' then [''gcc'', ''clang'']
      else if lang = ''cpp'' \<or> lang = ''c++'' then [''g++'', ''clang++'']
      else [])"

text \<open>
  The spec's interface: an optional field \<^verbatim>\<open>timeout_seconds\<close> of the request, 30 when it is
  absent.
\<close>

definition spec_timeout_seconds :: "run_body \<Rightarrow> int" where
  "spec_timeout_seconds b =
     (case map_of (body_other b) ''timeout_seconds'' of Some (JNumber t) \<Rightarrow> t | _ \<Rightarrow> 30)"

text \<open>
  The events \<open>tr'\<close> continue the events \<open>tr\<close>, and every process run in between was
  given the timeout.
\<close>

definition extends_with_timeout :: "int \<Rightarrow> event list \<Rightarrow> event list \<Rightarrow> bool" where
  "extends_with_timeout timeout tr tr' =
     (take (length tr) tr' = tr
      \<and> list_all (\<lambda>call. inv_timeout call = timeout)
          (subprocess_calls (drop (length tr) tr')))"

section \<open>Example hosts\<close>

text \<open>A POSIX host with a JDK, on which \<^verbatim>\<open>Main.java\<close> does not compile.\<close>

definition java_broken_host :: host where
  "java_broken_host =
     table_host False [(''javac'', ''/usr/bin/javac''), (''java'', ''/usr/bin/java'')]
       [(CmdList [''javac'', ''/tmp/w/Main.java''], exited '''' ''Main.java:1: error'' 1)]"

text \<open>A POSIX host with a JDK, on which \<^verbatim>\<open>Main.java\<close> compiles with a warning and prints 2.\<close>

definition java_host :: host where
  "java_host =
     table_host False [(''javac'', ''/usr/bin/javac''), (''java'', ''/usr/bin/java'')]
       [(CmdList [''javac'', ''/tmp/w/Main.java''], exited ''note'' ''warning: unchecked'' 0),
        (CmdList [''java'', ''-cp'', ''/tmp/w'', ''Main''], exited ''2'' '''' 0)]"

text \<open>A POSIX host with g++, on which \<^verbatim>\<open>main.cpp\<close> compiles and exits with 2.\<close>

definition cpp_host :: host where
  "cpp_host =
     table_host False [(''g++'', ''/usr/bin/g++'')]
       [(CmdList [''g++'', ''/tmp/w/main.cpp'', ''-o'', ''/tmp/w/a_out_exec'', ''-std=c++17''],
         exited '''' ''main.cpp: warning'' 0),
        (CmdList [''/tmp/w/a_out_exec''], exited ''out'' ''err'' 2)]"

text \<open>A POSIX host with clang and no gcc, on which \<^verbatim>\<open>main.c\<close> compiles and exits with 0.\<close>

definition c_host :: host where
  "c_host =
     table_host False [(''clang'', ''/usr/bin/clang'')]
       [(CmdList [''clang'', ''/tmp/w/main.c'', ''-o'', ''/tmp/w/a_out_exec''], exited '''' '''' 0),
        (CmdList [''/tmp/w/a_out_exec''], exited ''hi'' '''' 0)]"

text \<open>A POSIX host on which \<^verbatim>\<open>sleep 60\<close> does not end in time.\<close>

definition sleepy_host :: host where
  "sleepy_host =
     table_host False [] [(CmdList [''sleep'', ''60''], Raised (Exc TimeoutExpired ''''))]"

text \<open>A POSIX host on which \<^verbatim>\<open>/tmp/w/tool\<close> may not be executed.\<close>

definition locked_host :: host where
  "locked_host =
     table_host False []
       [(CmdList [''/tmp/w/tool''],
         Raised (Exc PermissionError ''[Errno 13] Permission denied: /tmp/w/tool''))]"

text \<open>A Windows host and a POSIX host, on each of which \<^verbatim>\<open>echo hi\<close> prints hi.\<close>

definition windows_echo_host :: host where
  "windows_echo_host = table_host True [] [(CmdStr ''echo hi'', exited ''hi'' '''' 0)]"

definition posix_echo_host :: host where
  "posix_echo_host = table_host False [] [(CmdList [''echo'', ''hi''], exited ''hi'' '''' 0)]"

text \<open>
  A Windows host without a program \<^verbatim>\<open>nosuchprog\<close>: the shell that is given this command
  line starts, reports that it does not know the program and exits with 1.
\<close>

definition windows_missing_host :: host where
  "windows_missing_host =
     table_host True []
       [(CmdStr ''nosuchprog'',
         exited ''''
           ([squote] @ ''nosuchprog'' @ [squote]
            @ '' is not recognized as an internal or external command,''
            @ '' operable program or batch file.'') 1)]"

text \<open>A POSIX host with nothing on the search path.\<close>

definition bare_host :: host where
  "bare_host = table_host False [] []"

text \<open>A POSIX host with pylint and no python interpreter.\<close>

definition pylint_only_host :: host where
  "pylint_only_host =
     table_host False [(''pylint'', ''/usr/bin/pylint'')]
       [(CmdList [''pylint'', ''/tmp/w/main.py''], exited ''rated 10/10'' '''' 0)]"

text \<open>A POSIX host with python3 and no python, on which \<^verbatim>\<open>main.py\<close> prints hi.\<close>

definition python3_host :: host where
  "python3_host =
     table_host False [(''python3'', ''/usr/bin/python3'')]
       [(CmdList [''/usr/bin/python3'', ''/tmp/w/main.py''], exited ''hi'' '''' 0)]"

text \<open>A request for python that also carries \<^verbatim>\<open>timeout_seconds = 1\<close>.\<close>

definition hurried_body :: run_body where
  "hurried_body =
     \<lparr>body_language = ''python'', body_filename = None, body_code = ''while True: pass'',
      body_other = [(''timeout_seconds'', JNumber 1)]\<rparr>"

text \<open>A POSIX host with python3, on which \<^verbatim>\<open>main.py\<close> does not end in time.\<close>

definition looping_host :: host where
  "looping_host =
     table_host False [(''python3'', ''/usr/bin/python3'')]
       [(CmdList [''/usr/bin/python3'', ''/tmp/w/main.py''], Raised (Exc TimeoutExpired ''''))]"

section \<open>Lemmas on the process invoker and the dispatcher\<close>

lemma run_command_list:
  "run_command h tr (CmdList xs) (Some cwd) timeout =
     run_process h tr (list_call xs cwd timeout) timeout (str_join '' '' (map shlex_quote xs))"
  by (simp add: run_command_def list_call_def)

lemma run_process_trace: "snd (run_process h tr call timeout executed) = tr @ [SubprocessRun call]"
  by (simp add: run_process_def)

lemma run_process_executed:
  "run_process h tr call timeout executed = (Inr (out, err, rc, ex), tr1) \<Longrightarrow> ex = executed"
  by (auto simp: run_process_def run_command_except_def split: outcome.splits py_exception.splits if_splits)

lemma dispatch_compile_run:
  assumes cc: "compile_cmd_of h pl tr file_path language = Some compile_cmd"
    and comp: "run_command h tr (CmdList compile_cmd) (Some (path_parent pl file_path)) timeout
                 = (Inr (out_c, err_c, rc_c, executed_compile), tr1)"
  shows "run_linter_for_language h pl tr file_path language timeout =
     (if rc_c \<noteq> 0 then (Inr (out_c, err_c, rc_c, executed_compile), tr1)
      else if \<not> run_toolchain_found h tr1 language then
        (Inr (out_c, ''Compiled but '' @ [CHR 0x60] @ ''java'' @ [CHR 0x60]
                       @ '' runtime not found on PATH.'', 125, executed_compile), tr1)
      else
        (case run_command h tr1 (CmdList (run_cmd_of h pl file_path language))
                (Some (path_parent pl file_path)) timeout of
           (Inl e, tr2) \<Rightarrow> (Inl e, tr2)
         | (Inr (out_r, err_r, rc_r, executed_run), tr2) \<Rightarrow>
             (Inr (out_r, err_r, rc_r, executed_compile @ '' ; '' @ executed_run), tr2)))"
proof (cases "str_lower (str_strip language) = ''java''")
  case True
  with cc have "is_executable_available h tr ''javac''" and "compile_cmd = java_compile_cmd pl file_path"
    by (auto simp: compile_cmd_of_def split: if_splits)
  with True comp show ?thesis
    by (simp add: run_linter_for_language_def run_toolchain_found_def run_cmd_of_def)
next
  case False
  with cc have l: "str_lower (str_strip language) = ''c'' \<or> str_lower (str_strip language) = ''cpp''
       \<or> str_lower (str_strip language) = ''c++''"
    by (auto simp: compile_cmd_of_def Let_def split: if_splits)
  with cc False obtain compiler where
    sc: "select_compiler h tr (str_lower (str_strip language) = ''cpp'' \<or> str_lower (str_strip language) = ''c++'') = Some compiler"
    and c: "compile_cmd = c_compile_cmd pl file_path (str_lower (str_strip language) = ''cpp'' \<or> str_lower (str_strip language) = ''c++'') compiler
                     (make_executable_path h pl (path_parent pl file_path) ''a_out_exec'')"
    by (auto simp: compile_cmd_of_def Let_def split: if_splits option.splits)
  from l show ?thesis
  proof (elim disjE)
    assume a: "str_lower (str_strip language) = ''c''"
    with sc c comp show ?thesis
      by (simp add: run_linter_for_language_def run_toolchain_found_def run_cmd_of_def Let_def)
  next
    assume a: "str_lower (str_strip language) = ''cpp''"
    with sc c comp show ?thesis
      by (simp add: run_linter_for_language_def run_toolchain_found_def run_cmd_of_def Let_def)
  next
    assume a: "str_lower (str_strip language) = ''c++''"
    with sc c comp show ?thesis
      by (simp add: run_linter_for_language_def run_toolchain_found_def run_cmd_of_def Let_def)
  qed
qed

section \<open>The compile-and-run state machine\<close>

text \<open>
  C1. For java, c, cpp and c++, once the toolchain is found and the compile step returns
  a nonzero return code, the dispatcher returns the compile step's stdout, stderr,
  return code and executed command unchanged, and the compile step is the only process
  it has run: the run step is not invoked.
\<close>

theorem compile_failure_skips_run:
  assumes "compile_cmd_of h pl tr file_path language = Some compile_cmd"
    and "run_command h tr (CmdList compile_cmd) (Some (path_parent pl file_path)) timeout
           = (Inr (out_c, err_c, rc_c, executed_compile), tr1)"
    and "rc_c \<noteq> 0"
  shows "run_linter_for_language h pl tr file_path language timeout
           = (Inr (out_c, err_c, rc_c, executed_compile), tr1)
         \<and> tr1 = tr @ [SubprocessRun (list_call compile_cmd (path_parent pl file_path) timeout)]"
proof -
  have "snd (run_command h tr (CmdList compile_cmd) (Some (path_parent pl file_path)) timeout)
          = tr @ [SubprocessRun (list_call compile_cmd (path_parent pl file_path) timeout)]"
    by (simp add: run_command_list run_process_trace)
  with assms(2)
  have "tr1 = tr @ [SubprocessRun (list_call compile_cmd (path_parent pl file_path) timeout)]"
    by simp
  with dispatch_compile_run [OF assms(1,2)] assms(3) show ?thesis by simp
qed

theorem compile_failure_skips_run_witness:
  "compile_cmd_of java_broken_host posix_pathlib [] ''/tmp/w/Main.java'' ''Java''
     = Some [''javac'', ''/tmp/w/Main.java'']
   \<and> run_command java_broken_host [] (CmdList [''javac'', ''/tmp/w/Main.java''])
        (Some (path_parent posix_pathlib ''/tmp/w/Main.java'')) 30
     = (Inr ('''', ''Main.java:1: error'', 1, ''javac /tmp/w/Main.java''),
        [SubprocessRun (list_call [''javac'', ''/tmp/w/Main.java''] ''/tmp/w'' 30)])
   \<and> run_linter_for_language java_broken_host posix_pathlib [] ''/tmp/w/Main.java'' ''Java'' 30
     = (Inr ('''', ''Main.java:1: error'', 1, ''javac /tmp/w/Main.java''),
        [SubprocessRun (list_call [''javac'', ''/tmp/w/Main.java''] ''/tmp/w'' 30)])"
proof -
  have 1: "compile_cmd_of java_broken_host posix_pathlib [] ''/tmp/w/Main.java'' ''Java''
     = Some [''javac'', ''/tmp/w/Main.java'']"
    by code_simp
  have 2: "run_command java_broken_host [] (CmdList [''javac'', ''/tmp/w/Main.java''])
        (Some (path_parent posix_pathlib ''/tmp/w/Main.java'')) 30
     = (Inr ('''', ''Main.java:1: error'', 1, ''javac /tmp/w/Main.java''),
        [SubprocessRun (list_call [''javac'', ''/tmp/w/Main.java''] ''/tmp/w'' 30)])"
    by code_simp
  have 3: "(1::int) \<noteq> 0" by simp
  from compile_failure_skips_run [OF 1 2 3] 1 2 show ?thesis by simp
qed

lemma compile_then_run:
  assumes cc: "compile_cmd_of h pl tr file_path language = Some compile_cmd"
    and comp: "run_command h tr (CmdList compile_cmd) (Some (path_parent pl file_path)) timeout
           = (Inr (out_c, err_c, 0, executed_compile), tr1)"
    and found: "run_toolchain_found h tr1 language"
    and run: "run_command h tr1 (CmdList (run_cmd_of h pl file_path language))
             (Some (path_parent pl file_path)) timeout
           = (Inr (out_r, err_r, rc_r, executed_run), tr2)"
  shows "run_linter_for_language h pl tr file_path language timeout
           = (Inr (out_r, err_r, rc_r, executed_compile @ '' ; '' @ executed_run), tr2)"
  using dispatch_compile_run [OF cc comp] found run by simp

lemma run_command_list_executed:
  assumes "run_command h tr (CmdList xs) (Some cwd) timeout = (Inr (out, err, rc, executed), tr1)"
  shows "executed = str_join '' '' (map shlex_quote xs)"
  using assms run_process_executed by (simp add: run_command_list)

text \<open>
  C5. For java, c, cpp and c++, when the compile step succeeds and the run step is
  performed, the executed command of the result is the compile command and the run
  command, each quoted argument by argument and joined by blanks, with the separator
  \<^verbatim>\<open> ; \<close> between the two.
\<close>

theorem executed_command_joins_phases:
  assumes "compile_cmd_of h pl tr file_path language = Some compile_cmd"
    and "run_command h tr (CmdList compile_cmd) (Some (path_parent pl file_path)) timeout
           = (Inr (out_c, err_c, 0, executed_compile), tr1)"
    and "run_toolchain_found h tr1 language"
    and "run_command h tr1 (CmdList (run_cmd_of h pl file_path language))
             (Some (path_parent pl file_path)) timeout
           = (Inr (out_r, err_r, rc_r, executed_run), tr2)"
  shows "\<exists>out err rc.
           run_linter_for_language h pl tr file_path language timeout
             = (Inr (out, err, rc,
                     str_join '' '' (map shlex_quote compile_cmd) @ '' ; ''
                     @ str_join '' '' (map shlex_quote (run_cmd_of h pl file_path language))),
                tr2)"
  using compile_then_run [OF assms] run_command_list_executed [OF assms(2)]
    run_command_list_executed [OF assms(4)]
  by simp

theorem executed_command_joins_phases_witness:
  "compile_cmd_of java_host posix_pathlib [] ''/tmp/w/Main.java'' ''java''
     = Some [''javac'', ''/tmp/w/Main.java'']
   \<and> run_toolchain_found java_host
        [SubprocessRun (list_call [''javac'', ''/tmp/w/Main.java''] ''/tmp/w'' 30)] ''java''
   \<and> run_cmd_of java_host posix_pathlib ''/tmp/w/Main.java'' ''java''
     = [''java'', ''-cp'', ''/tmp/w'', ''Main'']
   \<and> run_linter_for_language java_host posix_pathlib [] ''/tmp/w/Main.java'' ''java'' 30
     = (Inr (''2'', '''', 0, ''javac /tmp/w/Main.java ; java -cp /tmp/w Main''),
        [SubprocessRun (list_call [''javac'', ''/tmp/w/Main.java''] ''/tmp/w'' 30),
         SubprocessRun (list_call [''java'', ''-cp'', ''/tmp/w'', ''Main''] ''/tmp/w'' 30)])"
proof -
  let ?tr1 = "[SubprocessRun (list_call [''javac'', ''/tmp/w/Main.java''] ''/tmp/w'' 30)]"
  let ?tr2 = "[SubprocessRun (list_call [''javac'', ''/tmp/w/Main.java''] ''/tmp/w'' 30),
         SubprocessRun (list_call [''java'', ''-cp'', ''/tmp/w'', ''Main''] ''/tmp/w'' 30)]"
  have 1: "compile_cmd_of java_host posix_pathlib [] ''/tmp/w/Main.java'' ''java''
     = Some [''javac'', ''/tmp/w/Main.java'']"
    by code_simp
  have 2: "run_command java_host [] (CmdList [''javac'', ''/tmp/w/Main.java''])
        (Some (path_parent posix_pathlib ''/tmp/w/Main.java'')) 30
     = (Inr (''note'', ''warning: unchecked'', 0, ''javac /tmp/w/Main.java''), ?tr1)"
    by code_simp
  have 3: "run_toolchain_found java_host ?tr1 ''java''"
    by code_simp
  have 4: "run_command java_host ?tr1
        (CmdList (run_cmd_of java_host posix_pathlib ''/tmp/w/Main.java'' ''java''))
        (Some (path_parent posix_pathlib ''/tmp/w/Main.java'')) 30
     = (Inr (''2'', '''', 0, ''java -cp /tmp/w Main''), ?tr2)"
    by code_simp
  have 5: "run_cmd_of java_host posix_pathlib ''/tmp/w/Main.java'' ''java''
     = [''java'', ''-cp'', ''/tmp/w'', ''Main'']"
    by code_simp
  have 6: "run_linter_for_language java_host posix_pathlib [] ''/tmp/w/Main.java'' ''java'' 30
     = (Inr (''2'', '''', 0, ''javac /tmp/w/Main.java ; java -cp /tmp/w Main''), ?tr2)"
    by code_simp
  from executed_command_joins_phases [OF 1 2 3 4] 1 3 5 6 show ?thesis by simp
qed

text \<open>
  C10. For java, c, cpp and c++, when the compile step succeeds and the run step is
  performed, the stdout and stderr of the result are the run step's; the compile
  step's stdout and stderr do not appear in the result.
\<close>

theorem run_output_replaces_compile_output:
  assumes "compile_cmd_of h pl tr file_path language = Some compile_cmd"
    and "run_command h tr (CmdList compile_cmd) (Some (path_parent pl file_path)) timeout
           = (Inr (out_c, err_c, 0, executed_compile), tr1)"
    and "run_toolchain_found h tr1 language"
    and "run_command h tr1 (CmdList (run_cmd_of h pl file_path language))
             (Some (path_parent pl file_path)) timeout
           = (Inr (out_r, err_r, rc_r, executed_run), tr2)"
  shows "\<exists>executed.
           run_linter_for_language h pl tr file_path language timeout
             = (Inr (out_r, err_r, rc_r, executed), tr2)"
  using compile_then_run [OF assms] by simp

theorem run_output_replaces_compile_output_witness:
  "compile_cmd_of cpp_host posix_pathlib [] ''/tmp/w/main.cpp'' ''C++''
     = Some [''g++'', ''/tmp/w/main.cpp'', ''-o'', ''/tmp/w/a_out_exec'', ''-std=c++17'']
   \<and> run_command cpp_host []
         (CmdList [''g++'', ''/tmp/w/main.cpp'', ''-o'', ''/tmp/w/a_out_exec'', ''-std=c++17''])
         (Some (path_parent posix_pathlib ''/tmp/w/main.cpp'')) 30
     = (Inr ('''', ''main.cpp: warning'', 0,
             ''g++ /tmp/w/main.cpp -o /tmp/w/a_out_exec -std=c++17''),
        [SubprocessRun
          (list_call [''g++'', ''/tmp/w/main.cpp'', ''-o'', ''/tmp/w/a_out_exec'', ''-std=c++17'']
             ''/tmp/w'' 30)])
   \<and> run_toolchain_found cpp_host
        [SubprocessRun
          (list_call [''g++'', ''/tmp/w/main.cpp'', ''-o'', ''/tmp/w/a_out_exec'', ''-std=c++17'']
             ''/tmp/w'' 30)] ''C++''
   \<and> (\<exists>executed.
         run_linter_for_language cpp_host posix_pathlib [] ''/tmp/w/main.cpp'' ''C++'' 30
           = (Inr (''out'', ''err'', 2, executed),
              [SubprocessRun
                (list_call [''g++'', ''/tmp/w/main.cpp'', ''-o'', ''/tmp/w/a_out_exec'',
                            ''-std=c++17''] ''/tmp/w'' 30),
               SubprocessRun (list_call [''/tmp/w/a_out_exec''] ''/tmp/w'' 30)]))"
proof -
  let ?cc = "[''g++'', ''/tmp/w/main.cpp'', ''-o'', ''/tmp/w/a_out_exec'', ''-std=c++17'']"
  let ?tr1 = "[SubprocessRun (list_call ?cc ''/tmp/w'' 30)]"
  let ?tr2 = "[SubprocessRun (list_call ?cc ''/tmp/w'' 30),
               SubprocessRun (list_call [''/tmp/w/a_out_exec''] ''/tmp/w'' 30)]"
  have 1: "compile_cmd_of cpp_host posix_pathlib [] ''/tmp/w/main.cpp'' ''C++'' = Some ?cc"
    by code_simp
  have 2: "run_command cpp_host [] (CmdList ?cc)
             (Some (path_parent posix_pathlib ''/tmp/w/main.cpp'')) 30
     = (Inr ('''', ''main.cpp: warning'', 0,
             ''g++ /tmp/w/main.cpp -o /tmp/w/a_out_exec -std=c++17''), ?tr1)"
    by code_simp
  have 3: "run_toolchain_found cpp_host ?tr1 ''C++''"
    by code_simp
  have 4: "run_command cpp_host ?tr1
        (CmdList (run_cmd_of cpp_host posix_pathlib ''/tmp/w/main.cpp'' ''C++''))
        (Some (path_parent posix_pathlib ''/tmp/w/main.cpp'')) 30
     = (Inr (''out'', ''err'', 2, ''/tmp/w/a_out_exec''), ?tr2)"
    by code_simp
  from run_output_replaces_compile_output [OF 1 2 3 4] 1 2 3 show ?thesis by blast
qed

lemma run_command_list_trace:
  "snd (run_command h tr (CmdList xs) (Some cwd) timeout)
     = tr @ [SubprocessRun (list_call xs cwd timeout)]"
  by (simp add: run_command_list run_process_trace)

text \<open>
  C8. The executable path is the directory joined with the name, the name extended by
  \<^verbatim>\<open>.exe\<close> on a host whose \<^verbatim>\<open>os.name\<close> is \<^verbatim>\<open>nt\<close> and bare on every other host. For
  c, cpp and c++, the compile command names that path after \<^verbatim>\<open>-o\<close>, and after a
  successful compilation the run step launches exactly that path.
\<close>

theorem executable_path_consistent:
  assumes "str_lower (str_strip language) \<noteq> ''java''"
    and "compile_cmd_of h pl tr file_path language = Some compile_cmd"
    and "run_command h tr (CmdList compile_cmd) (Some (path_parent pl file_path)) timeout
           = (Inr (out_c, err_c, 0, executed_compile), tr1)"
    and "exe_path = make_executable_path h pl (path_parent pl file_path) ''a_out_exec''"
  shows "make_executable_path h pl cwd name
           = path_join pl cwd (if os_nt h then name @ ''.exe'' else name)
         \<and> (\<exists>compiler flags. compile_cmd = [compiler, path_str pl file_path, ''-o'', exe_path] @ flags)
         \<and> snd (run_linter_for_language h pl tr file_path language timeout)
             = tr @ [SubprocessRun (list_call compile_cmd (path_parent pl file_path) timeout),
                     SubprocessRun (list_call [exe_path] (path_parent pl file_path) timeout)]"
proof -
  have a: "make_executable_path h pl cwd name
           = path_join pl cwd (if os_nt h then name @ ''.exe'' else name)"
    by (simp add: make_executable_path_def)
  from assms(1,2,4)
  have b: "\<exists>compiler flags. compile_cmd = [compiler, path_str pl file_path, ''-o'', exe_path] @ flags"
    by (auto simp: compile_cmd_of_def c_compile_cmd_def Let_def split: if_splits option.splits)
  from assms(1) have f: "run_toolchain_found h tr1 language"
    and r: "run_cmd_of h pl file_path language = [exe_path]"
    by (simp_all add: run_toolchain_found_def run_cmd_of_def assms(4))
  have t1: "tr1 = tr @ [SubprocessRun (list_call compile_cmd (path_parent pl file_path) timeout)]"
    using run_command_list_trace [of h tr compile_cmd "path_parent pl file_path" timeout] assms(3)
    by simp
  have t2: "snd (run_command h tr1 (CmdList [exe_path]) (Some (path_parent pl file_path)) timeout)
          = tr1 @ [SubprocessRun (list_call [exe_path] (path_parent pl file_path) timeout)]"
    by (rule run_command_list_trace)
  have "snd (run_linter_for_language h pl tr file_path language timeout)
          = snd (run_command h tr1 (CmdList [exe_path]) (Some (path_parent pl file_path)) timeout)"
    using dispatch_compile_run [OF assms(2,3)] f r
    by (auto split: prod.splits sum.splits)
  with t1 t2 have c: "snd (run_linter_for_language h pl tr file_path language timeout)
             = tr @ [SubprocessRun (list_call compile_cmd (path_parent pl file_path) timeout),
                     SubprocessRun (list_call [exe_path] (path_parent pl file_path) timeout)]"
    by simp
  from a b c show ?thesis by blast
qed

theorem executable_path_consistent_witness:
  "str_lower (str_strip ''c'') \<noteq> ''java''
   \<and> compile_cmd_of c_host posix_pathlib [] ''/tmp/w/main.c'' ''c''
       = Some [''clang'', ''/tmp/w/main.c'', ''-o'', ''/tmp/w/a_out_exec'']
   \<and> make_executable_path c_host posix_pathlib ''/tmp/w'' ''a_out_exec'' = ''/tmp/w/a_out_exec''
   \<and> snd (run_linter_for_language c_host posix_pathlib [] ''/tmp/w/main.c'' ''c'' 30)
       = [SubprocessRun
            (list_call [''clang'', ''/tmp/w/main.c'', ''-o'', ''/tmp/w/a_out_exec''] ''/tmp/w'' 30),
          SubprocessRun (list_call [''/tmp/w/a_out_exec''] ''/tmp/w'' 30)]"
proof -
  let ?cc = "[''clang'', ''/tmp/w/main.c'', ''-o'', ''/tmp/w/a_out_exec'']"
  have 0: "str_lower (str_strip ''c'') \<noteq> ''java''"
    by code_simp
  have 1: "compile_cmd_of c_host posix_pathlib [] ''/tmp/w/main.c'' ''c'' = Some ?cc"
    by code_simp
  have 2: "run_command c_host [] (CmdList ?cc) (Some (path_parent posix_pathlib ''/tmp/w/main.c'')) 30
     = (Inr ('''', '''', 0, ''clang /tmp/w/main.c -o /tmp/w/a_out_exec''),
        [SubprocessRun (list_call ?cc ''/tmp/w'' 30)])"
    by code_simp
  have 3: "''/tmp/w/a_out_exec''
     = make_executable_path c_host posix_pathlib (path_parent posix_pathlib ''/tmp/w/main.c'')
         ''a_out_exec''"
    by code_simp
  have 4: "path_parent posix_pathlib ''/tmp/w/main.c'' = ''/tmp/w''"
    by code_simp
  have 5: "make_executable_path c_host posix_pathlib ''/tmp/w'' ''a_out_exec'' = ''/tmp/w/a_out_exec''"
    by code_simp
  from executable_path_consistent [OF 0 1 2 3, of "''/tmp/w''" "''a_out_exec''"] 0 1 4 5
  show ?thesis by simp
qed

section \<open>The process invoker\<close>

text \<open>
  C2. Whatever the command, the working directory and the timeout, when the process
  \<open>run_command\<close> has started exceeds the timeout, \<open>run_command\<close> returns an empty stdout,
  the stderr \<^verbatim>\<open>TimeoutExpired: process exceeded <timeout> seconds\<close> and the return
  code 124.
\<close>

theorem run_command_timeout:
  assumes "run_command h tr cmd cwd timeout = (r, tr @ [SubprocessRun call])"
    and "subprocess_run h tr call = Raised (Exc TimeoutExpired msg)"
  shows "inv_timeout call = timeout
         \<and> (\<exists>executed.
               r = Inr ('''', ''TimeoutExpired: process exceeded '' @ str_int timeout @ '' seconds'',
                        124, executed))"
  using assms
  by (auto simp: run_command_def run_process_def run_command_except_def
           split: cmd.splits if_splits sum.splits)

theorem run_command_timeout_witness:
  "run_command sleepy_host [] (CmdList [''sleep'', ''60'']) None 1
     = (Inr ('''', ''TimeoutExpired: process exceeded 1 seconds'', 124, ''sleep 60''),
        [] @ [SubprocessRun \<lparr>inv_args = CmdList [''sleep'', ''60''], inv_shell = False,
                             inv_cwd = None, inv_timeout = 1\<rparr>])
   \<and> subprocess_run sleepy_host []
        \<lparr>inv_args = CmdList [''sleep'', ''60''], inv_shell = False, inv_cwd = None,
         inv_timeout = 1\<rparr>
       = Raised (Exc TimeoutExpired '''')
   \<and> str_int 1 = ''1''"
proof -
  let ?call = "\<lparr>inv_args = CmdList [''sleep'', ''60''], inv_shell = False, inv_cwd = None,
                inv_timeout = 1\<rparr>"
  have 1: "run_command sleepy_host [] (CmdList [''sleep'', ''60'']) None 1
     = (Inr ('''', ''TimeoutExpired: process exceeded 1 seconds'', 124, ''sleep 60''),
        [] @ [SubprocessRun ?call])"
    by code_simp
  have 2: "subprocess_run sleepy_host [] ?call = Raised (Exc TimeoutExpired '''')"
    by code_simp
  have 3: "str_int 1 = ''1''"
    by code_simp
  from run_command_timeout [OF 1 2] 1 2 3 show ?thesis by simp
qed

text \<open>
  C3, as the spec states it, fails on Windows for a command given as one string: the
  program \<^verbatim>\<open>nosuchprog\<close> is not found, yet nothing is raised, because the shell is what
  was launched; \<open>run_command\<close> returns the shell's stderr and its exit status 1, not 125.
\<close>

theorem run_command_launch_failure_counterexample:
  "run_command windows_missing_host [] (CmdStr ''nosuchprog'') None 30
     = (Inr ('''',
             [squote] @ ''nosuchprog'' @ [squote]
             @ '' is not recognized as an internal or external command,''
             @ '' operable program or batch file.'',
             1, ''nosuchprog''),
        [SubprocessRun \<lparr>inv_args = CmdStr ''nosuchprog'', inv_shell = True, inv_cwd = None,
                        inv_timeout = 30\<rparr>])
   \<and> fst (snd (snd (case fst (run_command windows_missing_host [] (CmdStr ''nosuchprog'') None 30)
                       of Inr res \<Rightarrow> res | Inl e \<Rightarrow> ('''', '''', 125, ''''))))
       \<noteq> 125"
  by code_simp

text \<open>
  C3, amended. Whatever exception derived from \<^verbatim>\<open>Exception\<close> the call of
  \<^verbatim>\<open>subprocess.run\<close> raises, the timeout apart (the executable is not found, permission
  is denied, any other error of the operating system), \<open>run_command\<close> raises nothing: it
  returns an empty stdout, a stderr that starts with \<^verbatim>\<open>RunnerError: \<close> and ends with the
  exception's message, and the return code 125. A call that raises nothing is returned
  as it completed, with its stdout, stderr and return code. On a host whose \<^verbatim>\<open>os.name\<close>
  is \<^verbatim>\<open>nt\<close> a command given as one string is such a call of the shell, so a program the
  shell cannot find or start is reported with the shell's stderr and exit status and
  not with 125.
\<close>

theorem run_command_launch_failure:
  assumes "run_command h tr cmd cwd timeout = (r, tr @ [SubprocessRun call])"
  shows "(subprocess_run h tr call = Raised (Exc k msg) \<and> is_Exception k \<and> k \<noteq> TimeoutExpired
            \<longrightarrow>
            (\<exists>executed.
               r = Inr ('''',
                        ''RunnerError: ''
                        @ (if k = FileNotFoundError
                           then ''[WinError 2] The system cannot find the file specified: ''
                           else '''')
                        @ msg,
                        125, executed)))
         \<and> (subprocess_run h tr call = Completed proc \<longrightarrow>
              (\<exists>executed.
                 r = Inr (proc_stdout proc, proc_stderr proc, proc_returncode proc, executed)))
         \<and> (os_nt h \<and> cmd = CmdStr s \<longrightarrow>
              call = \<lparr>inv_args = CmdStr s, inv_shell = True, inv_cwd = cwd,
                      inv_timeout = timeout\<rparr>)"
  using assms
  by (auto simp: run_command_def run_process_def run_command_except_def str_or_def
           split: cmd.splits if_splits sum.splits)

theorem run_command_launch_failure_witness:
  "run_command locked_host [] (CmdList [''/tmp/w/tool'']) (Some ''/tmp/w'') 30
     = (Inr ('''', ''RunnerError: [Errno 13] Permission denied: /tmp/w/tool'', 125, ''/tmp/w/tool''),
        [] @ [SubprocessRun (list_call [''/tmp/w/tool''] ''/tmp/w'' 30)])
   \<and> subprocess_run locked_host [] (list_call [''/tmp/w/tool''] ''/tmp/w'' 30)
       = Raised (Exc PermissionError ''[Errno 13] Permission denied: /tmp/w/tool'')
   \<and> is_Exception PermissionError
   \<and> PermissionError \<noteq> TimeoutExpired
   \<and> os_nt windows_echo_host
   \<and> subprocess_run windows_echo_host []
         \<lparr>inv_args = CmdStr ''echo hi'', inv_shell = True, inv_cwd = None, inv_timeout = 30\<rparr>
       = Completed \<lparr>proc_stdout = ''hi'', proc_stderr = '''', proc_returncode = 0\<rparr>
   \<and> run_command windows_echo_host [] (CmdStr ''echo hi'') None 30
       = (Inr (''hi'', '''', 0, ''echo hi''),
          [] @ [SubprocessRun \<lparr>inv_args = CmdStr ''echo hi'', inv_shell = True, inv_cwd = None,
                                inv_timeout = 30\<rparr>])"
proof -
  have 5: "os_nt windows_echo_host"
    by code_simp
  have 6: "run_command windows_echo_host [] (CmdStr ''echo hi'') None 30
       = (Inr (''hi'', '''', 0, ''echo hi''),
          [] @ [SubprocessRun \<lparr>inv_args = CmdStr ''echo hi'', inv_shell = True, inv_cwd = None,
                                inv_timeout = 30\<rparr>])"
    by code_simp
  have 7: "subprocess_run windows_echo_host []
         \<lparr>inv_args = CmdStr ''echo hi'', inv_shell = True, inv_cwd = None, inv_timeout = 30\<rparr>
       = Completed \<lparr>proc_stdout = ''hi'', proc_stderr = '''', proc_returncode = 0\<rparr>"
    by code_simp
  have 1: "run_command locked_host [] (CmdList [''/tmp/w/tool'']) (Some ''/tmp/w'') 30
     = (Inr ('''', ''RunnerError: [Errno 13] Permission denied: /tmp/w/tool'', 125, ''/tmp/w/tool''),
        [] @ [SubprocessRun (list_call [''/tmp/w/tool''] ''/tmp/w'' 30)])"
    by code_simp
  have 2: "subprocess_run locked_host [] (list_call [''/tmp/w/tool''] ''/tmp/w'' 30)
       = Raised (Exc PermissionError ''[Errno 13] Permission denied: /tmp/w/tool'')"
    by code_simp
  have 3: "is_Exception PermissionError"
    by (simp add: is_Exception_def)
  have 4: "PermissionError \<noteq> TimeoutExpired"
    by simp
  from run_command_launch_failure [OF 1, where k = PermissionError
      and msg = "''[Errno 13] Permission denied: /tmp/w/tool''"] 2 3 4
  have a: "\<exists>executed.
      Inr ('''', ''RunnerError: [Errno 13] Permission denied: /tmp/w/tool'', 125, ''/tmp/w/tool'')
        = (Inr ('''', ''RunnerError: '' @ ''[Errno 13] Permission denied: /tmp/w/tool'', 125,
                executed) :: py_exception + result)"
    by simp
  from run_command_launch_failure [OF 6,
      where proc = "\<lparr>proc_stdout = ''hi'', proc_stderr = '''', proc_returncode = 0\<rparr>"] 7
  have b: "\<exists>executed.
      (Inr (''hi'', '''', 0, ''echo hi'') :: py_exception + result) = Inr (''hi'', '''', 0, executed)"
    by simp
  from a b 1 2 3 4 5 6 7 show ?thesis by simp
qed

section \<open>The dispatcher\<close>

text \<open>
  C4. For every supported language key, when none of the toolchains the spec's table
  lists for it (the lint-only fallback included) is on the search path, the dispatcher
  returns the return code 125 with an explanatory stderr, an empty stdout and an empty
  executed command, and it runs no process: the events are as they were.
\<close>

theorem toolchain_absent:
  assumes "str_lower (str_strip language) \<in> set supported_languages"
    and "\<forall>name \<in> set (spec_toolchains (str_lower (str_strip language))).
           shutil_which h tr name = None"
  shows "\<exists>msg. msg \<noteq> []
           \<and> run_linter_for_language h pl tr file_path language timeout
               = (Inr ('''', msg, 125, ''''), tr)"
proof -
  from assms(1) consider
      "str_lower (str_strip language) = ''python''" | "str_lower (str_strip language) = ''py''"
    | "str_lower (str_strip language) = ''javascript''" | "str_lower (str_strip language) = ''js''"
    | "str_lower (str_strip language) = ''node''" | "str_lower (str_strip language) = ''java''"
    | "str_lower (str_strip language) = ''c''" | "str_lower (str_strip language) = ''cpp''"
    | "str_lower (str_strip language) = ''c++''"
    by (auto simp: supported_languages_def)
  then show ?thesis
  proof cases
    case 1
    with assms(2) show ?thesis
      by (simp add: run_linter_for_language_def spec_toolchains_def find_python_def truthy_def
            is_executable_available_def)
  next
    case 2
    with assms(2) show ?thesis
      by (simp add: run_linter_for_language_def spec_toolchains_def find_python_def truthy_def
            is_executable_available_def)
  next
    case 3
    with assms(2) show ?thesis
      by (simp add: run_linter_for_language_def spec_toolchains_def is_executable_available_def)
  next
    case 4
    with assms(2) show ?thesis
      by (simp add: run_linter_for_language_def spec_toolchains_def is_executable_available_def)
  next
    case 5
    with assms(2) show ?thesis
      by (simp add: run_linter_for_language_def spec_toolchains_def is_executable_available_def)
  next
    case 6
    with assms(2) show ?thesis
      by (simp add: run_linter_for_language_def spec_toolchains_def is_executable_available_def)
  next
    case 7
    with assms(2) show ?thesis
      by (simp add: run_linter_for_language_def spec_toolchains_def is_executable_available_def
            select_compiler_def)
  next
    case 8
    with assms(2) show ?thesis
      by (simp add: run_linter_for_language_def spec_toolchains_def is_executable_available_def
            select_compiler_def)
  next
    case 9
    with assms(2) show ?thesis
      by (simp add: run_linter_for_language_def spec_toolchains_def is_executable_available_def
            select_compiler_def)
  qed
qed

theorem toolchain_absent_witness:
  "str_lower (str_strip '' JS '') \<in> set supported_languages
   \<and> spec_toolchains (str_lower (str_strip '' JS '')) = [''node'', ''eslint'']
   \<and> shutil_which bare_host [] ''node'' = None
   \<and> shutil_which bare_host [] ''eslint'' = None
   \<and> run_linter_for_language bare_host posix_pathlib [] ''/tmp/w/main.js'' '' JS '' 30
       = (Inr ('''', ''No node or eslint found on PATH.'', 125, ''''), [])"
proof -
  have 0: "spec_toolchains (str_lower (str_strip '' JS '')) = [''node'', ''eslint'']
     \<and> shutil_which bare_host [] ''node'' = None
     \<and> shutil_which bare_host [] ''eslint'' = None"
    by code_simp
  have 1:"str_lower (str_strip '' JS '') \<in> set supported_languages"
    by code_simp
  have 2: "\<forall>name \<in> set (spec_toolchains (str_lower (str_strip '' JS ''))).
         shutil_which bare_host [] name = None"
    by code_simp
  have 3: "run_linter_for_language bare_host posix_pathlib [] ''/tmp/w/main.js'' '' JS '' 30
       = (Inr ('''', ''No node or eslint found on PATH.'', 125, ''''), [])"
    by code_simp
  from toolchain_absent [OF 1 2, of posix_pathlib "''/tmp/w/main.js''" 30] 0 1 3
  show ?thesis by simp
qed

text \<open>
  C7, as the spec states it, fails: with the language \<^verbatim>\<open>ruby\<close>, the file
  \<^verbatim>\<open>/tmp/w/main.py\<close> and a host that has pylint and no python interpreter, the policy
  for python runs pylint, and the dispatcher runs nothing and returns 125.
\<close>

theorem unknown_language_counterexample:
  "str_lower (str_strip ''ruby'') \<notin> set supported_languages
   \<and> path_suffix posix_pathlib ''/tmp/w/main.py'' = ''.py''
   \<and> run_linter_for_language pylint_only_host posix_pathlib [] ''/tmp/w/main.py'' ''python'' 30
       = (Inr (''rated 10/10'', '''', 0, ''pylint /tmp/w/main.py''),
          [SubprocessRun (list_call [''pylint'', ''/tmp/w/main.py''] ''/tmp/w'' 30)])
   \<and> run_linter_for_language pylint_only_host posix_pathlib [] ''/tmp/w/main.py'' ''ruby'' 30
       = (Inr ('''', ''No runner available for language '' @ [squote] @ ''ruby'' @ [squote] @ ''.'',
               125, ''''), [])
   \<and> run_linter_for_language pylint_only_host posix_pathlib [] ''/tmp/w/main.py'' ''ruby'' 30
       \<noteq> run_linter_for_language pylint_only_host posix_pathlib [] ''/tmp/w/main.py'' ''python'' 30"
  by code_simp

text \<open>
  C7, amended. For every language key outside the supported set, the dispatcher runs
  the file with the python interpreter exactly when the file's suffix is \<^verbatim>\<open>.py\<close> and an
  interpreter (python, else python3) is on the search path; pylint is not tried. In
  every other case it returns the return code 125 with a stderr that names the language
  as it was given, and it runs no process.
\<close>

theorem unknown_language_fallback:
  assumes "str_lower (str_strip language) \<notin> set supported_languages"
  shows "(path_suffix pl file_path = ''.py'' \<and> find_python h tr = Some python_bin \<longrightarrow>
            run_linter_for_language h pl tr file_path language timeout
              = run_command h tr (CmdList [python_bin, path_str pl file_path])
                  (Some (path_parent pl file_path)) timeout)
         \<and> (path_suffix pl file_path \<noteq> ''.py'' \<or> find_python h tr = None \<longrightarrow>
              run_linter_for_language h pl tr file_path language timeout
                = (Inr ('''',
                        ''No runner available for language '' @ [squote] @ language @ [squote]
                          @ ''.'', 125, ''''), tr))"
  using assms
  by (auto simp: run_linter_for_language_def supported_languages_def)

theorem unknown_language_fallback_witness:
  "str_lower (str_strip ''ruby'') \<notin> set supported_languages
   \<and> path_suffix posix_pathlib ''/tmp/w/main.py'' = ''.py''
   \<and> find_python python3_host [] = Some ''/usr/bin/python3''
   \<and> run_linter_for_language python3_host posix_pathlib [] ''/tmp/w/main.py'' ''ruby'' 30
       = (Inr (''hi'', '''', 0, ''/usr/bin/python3 /tmp/w/main.py''),
          [SubprocessRun (list_call [''/usr/bin/python3'', ''/tmp/w/main.py''] ''/tmp/w'' 30)])
   \<and> path_suffix posix_pathlib ''/tmp/w/main.rb'' \<noteq> ''.py''
   \<and> run_linter_for_language python3_host posix_pathlib [] ''/tmp/w/main.rb'' ''ruby'' 30
       = (Inr ('''', ''No runner available for language '' @ [squote] @ ''ruby'' @ [squote] @ ''.'',
               125, ''''), [])"
proof -
  have 1: "str_lower (str_strip ''ruby'') \<notin> set supported_languages"
    by code_simp
  have 2: "path_suffix posix_pathlib ''/tmp/w/main.py'' = ''.py''"
    by code_simp
  have 3: "find_python python3_host [] = Some ''/usr/bin/python3''"
    by code_simp
  have 4: "run_command python3_host []
             (CmdList [''/usr/bin/python3'', path_str posix_pathlib ''/tmp/w/main.py''])
             (Some (path_parent posix_pathlib ''/tmp/w/main.py'')) 30
       = (Inr (''hi'', '''', 0, ''/usr/bin/python3 /tmp/w/main.py''),
          [SubprocessRun (list_call [''/usr/bin/python3'', ''/tmp/w/main.py''] ''/tmp/w'' 30)])"
    by code_simp
  have 5: "path_suffix posix_pathlib ''/tmp/w/main.rb'' \<noteq> ''.py''"
    by code_simp
  from unknown_language_fallback [OF 1, of posix_pathlib "''/tmp/w/main.py''" python3_host "[]"
      "''/usr/bin/python3''" 30] 2 3 4
  have a: "run_linter_for_language python3_host posix_pathlib [] ''/tmp/w/main.py'' ''ruby'' 30
       = (Inr (''hi'', '''', 0, ''/usr/bin/python3 /tmp/w/main.py''),
          [SubprocessRun (list_call [''/usr/bin/python3'', ''/tmp/w/main.py''] ''/tmp/w'' 30)])"
    by simp
  from unknown_language_fallback [OF 1, of posix_pathlib "''/tmp/w/main.rb''" python3_host "[]"
      "''/usr/bin/python3''" 30] 5
  have b: "run_linter_for_language python3_host posix_pathlib [] ''/tmp/w/main.rb'' ''ruby'' 30
       = (Inr ('''', ''No runner available for language '' @ [squote] @ ''ruby'' @ [squote] @ ''.'',
               125, ''''), [])"
    by simp
  from 1 2 3 5 a b show ?thesis by simp
qed

section \<open>A command given as one string\<close>

text \<open>
  C6, as the spec states it, fails on Windows: there the string \<^verbatim>\<open>echo hi\<close> is not
  split into \<^verbatim>\<open>echo\<close> and \<^verbatim>\<open>hi\<close> but handed whole to \<^verbatim>\<open>subprocess.run\<close> with
  \<^verbatim>\<open>shell=True\<close>.
\<close>

theorem string_command_counterexample:
  "shlex_split ''echo hi'' = Inr [''echo'', ''hi'']
   \<and> run_command windows_echo_host [] (CmdStr ''echo hi'') None 30
       = (Inr (''hi'', '''', 0, ''echo hi''),
          [SubprocessRun \<lparr>inv_args = CmdStr ''echo hi'', inv_shell = True, inv_cwd = None,
                          inv_timeout = 30\<rparr>])
   \<and> snd (run_command windows_echo_host [] (CmdStr ''echo hi'') None 30)
       \<noteq> [SubprocessRun \<lparr>inv_args = CmdList [''echo'', ''hi''], inv_shell = False,
                          inv_cwd = None, inv_timeout = 30\<rparr>]"
  by code_simp

text \<open>
  C6, amended. On a host whose \<^verbatim>\<open>os.name\<close> is not \<^verbatim>\<open>nt\<close>, a command given as one
  string is split by \<^verbatim>\<open>shlex.split\<close> and the resulting argument list is run without a
  shell, as the same list given directly would be; when the string cannot be split, no
  process is run and the result carries the return code 125. On a host whose \<^verbatim>\<open>os.name\<close>
  is \<^verbatim>\<open>nt\<close> the string is passed unsplit to \<^verbatim>\<open>subprocess.run\<close> with \<^verbatim>\<open>shell=True\<close>.
\<close>

theorem string_command_tokenized:
  "(\<not> os_nt h \<and> shlex_split s = Inr args \<longrightarrow>
      run_command h tr (CmdStr s) cwd timeout = run_command h tr (CmdList args) cwd timeout
      \<and> snd (run_command h tr (CmdStr s) cwd timeout)
          = tr @ [SubprocessRun \<lparr>inv_args = CmdList args, inv_shell = False, inv_cwd = cwd,
                                  inv_timeout = timeout\<rparr>])
   \<and> (\<not> os_nt h \<and> shlex_split s = Inl msg \<longrightarrow>
        run_command h tr (CmdStr s) cwd timeout
          = (Inr ('''', ''RunnerError: '' @ msg, 125, s), tr))
   \<and> (os_nt h \<longrightarrow>
        snd (run_command h tr (CmdStr s) cwd timeout)
          = tr @ [SubprocessRun \<lparr>inv_args = CmdStr s, inv_shell = True, inv_cwd = cwd,
                                  inv_timeout = timeout\<rparr>])"
  by (simp add: run_command_def run_process_def run_command_except_def is_Exception_def)

theorem string_command_tokenized_witness:
  "\<not> os_nt posix_echo_host
   \<and> shlex_split ''echo hi'' = Inr [''echo'', ''hi'']
   \<and> run_command posix_echo_host [] (CmdStr ''echo hi'') None 30
       = (Inr (''hi'', '''', 0, ''echo hi''),
          [SubprocessRun \<lparr>inv_args = CmdList [''echo'', ''hi''], inv_shell = False,
                          inv_cwd = None, inv_timeout = 30\<rparr>])
   \<and> shlex_split (''echo '' @ [dquote] @ ''hi'') = Inl ''No closing quotation''
   \<and> run_command posix_echo_host [] (CmdStr (''echo '' @ [dquote] @ ''hi'')) None 30
       = (Inr ('''', ''RunnerError: No closing quotation'', 125, ''echo '' @ [dquote] @ ''hi''), [])
   \<and> os_nt windows_echo_host
   \<and> snd (run_command windows_echo_host [] (CmdStr ''echo hi'') None 30)
       = [SubprocessRun \<lparr>inv_args = CmdStr ''echo hi'', inv_shell = True, inv_cwd = None,
                          inv_timeout = 30\<rparr>]"
proof -
  have 1: "\<not> os_nt posix_echo_host"
    by code_simp
  have 2: "shlex_split ''echo hi'' = Inr [''echo'', ''hi'']"
    by code_simp
  have 3: "run_command posix_echo_host [] (CmdList [''echo'', ''hi'']) None 30
       = (Inr (''hi'', '''', 0, ''echo hi''),
          [SubprocessRun \<lparr>inv_args = CmdList [''echo'', ''hi''], inv_shell = False,
                          inv_cwd = None, inv_timeout = 30\<rparr>])"
    by code_simp
  have 4: "shlex_split (''echo '' @ [dquote] @ ''hi'') = Inl ''No closing quotation''"
    by code_simp
  have 5: "os_nt windows_echo_host"
    by code_simp
  from string_command_tokenized [where h = posix_echo_host and s = "''echo hi''"
      and args = "[''echo'', ''hi'']" and tr = "[]" and cwd = None and timeout = 30] 1 2 3
  have a: "run_command posix_echo_host [] (CmdStr ''echo hi'') None 30
       = (Inr (''hi'', '''', 0, ''echo hi''),
          [SubprocessRun \<lparr>inv_args = CmdList [''echo'', ''hi''], inv_shell = False,
                          inv_cwd = None, inv_timeout = 30\<rparr>])"
    by simp
  from string_command_tokenized [where h = posix_echo_host and s = "''echo '' @ [dquote] @ ''hi''"
      and msg = "''No closing quotation''" and tr = "[]" and cwd = None and timeout = 30] 1 4
  have b: "run_command posix_echo_host [] (CmdStr (''echo '' @ [dquote] @ ''hi'')) None 30
       = (Inr ('''', ''RunnerError: No closing quotation'', 125, ''echo '' @ [dquote] @ ''hi''), [])"
    by simp
  from string_command_tokenized [where h = windows_echo_host and s = "''echo hi''"
      and tr = "[]" and cwd = None and timeout = 30] 5
  have c: "snd (run_command windows_echo_host [] (CmdStr ''echo hi'') None 30)
       = [SubprocessRun \<lparr>inv_args = CmdStr ''echo hi'', inv_shell = True, inv_cwd = None,
                          inv_timeout = 30\<rparr>]"
    by simp
  from 1 2 4 5 a b c show ?thesis by simp
qed

section \<open>The timeout of a request\<close>

lemma subprocess_calls_append:
  "subprocess_calls (xs @ ys) = subprocess_calls xs @ subprocess_calls ys"
  by (induction xs rule: subprocess_calls.induct) simp_all

lemma extends_with_timeout_iff:
  "extends_with_timeout timeout tr tr' \<longleftrightarrow>
     (\<exists>evs. tr' = tr @ evs
        \<and> list_all (\<lambda>call. inv_timeout call = timeout) (subprocess_calls evs))"
proof
  assume "extends_with_timeout timeout tr tr'"
  then have "tr' = tr @ drop (length tr) tr'"
    and "list_all (\<lambda>call. inv_timeout call = timeout) (subprocess_calls (drop (length tr) tr'))"
    by (simp_all add: extends_with_timeout_def) (metis append_take_drop_id)
  then show "\<exists>evs. tr' = tr @ evs
        \<and> list_all (\<lambda>call. inv_timeout call = timeout) (subprocess_calls evs)"
    by blast
next
  assume "\<exists>evs. tr' = tr @ evs
        \<and> list_all (\<lambda>call. inv_timeout call = timeout) (subprocess_calls evs)"
  then show "extends_with_timeout timeout tr tr'"
    by (auto simp: extends_with_timeout_def)
qed

lemma run_command_steps:
  assumes "run_command h tr cmd cwd timeout = (r, tr')"
  shows "extends_with_timeout timeout tr tr'"
  using assms
  by (auto simp: run_command_def run_process_def extends_with_timeout_iff
           split: cmd.splits if_splits sum.splits)

lemma extends_refl: "extends_with_timeout timeout tr tr"
  by (simp add: extends_with_timeout_iff)

lemma extends_trans:
  "extends_with_timeout timeout tr tr1 \<Longrightarrow> extends_with_timeout timeout tr1 tr2
     \<Longrightarrow> extends_with_timeout timeout tr tr2"
  by (auto simp: extends_with_timeout_iff subprocess_calls_append)

lemma dispatcher_steps:
  assumes "run_linter_for_language h pl tr file_path language timeout = (r, tr')"
  shows "extends_with_timeout timeout tr tr'"
  using assms unfolding run_linter_for_language_def Let_def
  by (auto split: if_splits option.splits prod.splits sum.splits
           dest!: run_command_steps intro: extends_refl extends_trans)

lemma run_code_steps:
  assumes "run_code h pl fs tr req = (r, tr')"
  shows "extends_with_timeout 30 tr tr'"
proof (cases "mkdtemp fs tr")
  case (Inl e)
  with assms show ?thesis
    by (simp add: run_code_def Let_def extends_refl)
next
  case (Inr td)
  define file_path where "file_path =
    os_path_join fs td
      (case req_filename req of
         None \<Rightarrow> ''main'' @ (case map_of extension_table (str_lower (req_language req)) of
                               Some e \<Rightarrow> e | None \<Rightarrow> ''.txt'')
       | Some f \<Rightarrow> if f = [] then ''main'' @ (case map_of extension_table (str_lower (req_language req)) of
                               Some e \<Rightarrow> e | None \<Rightarrow> ''.txt'') else f)"
  show ?thesis
  proof (cases "open_write fs (tr @ [TempDirCreated td]) file_path (req_code req)")
    case (Some e)
    with assms Inr have "tr' = tr @ [TempDirCreated td, TempDirRemoved td]"
      by (simp add: run_code_def Let_def file_path_def)
    then show ?thesis
      by (simp add: extends_with_timeout_iff)
  next
    case None
    obtain r2 tr2 where d: "run_linter_for_language h pl
        (tr @ [TempDirCreated td, FileWritten file_path (req_code req)]) file_path
        (str_lower (req_language req)) 30 = (r2, tr2)"
      by (cases "run_linter_for_language h pl
        (tr @ [TempDirCreated td, FileWritten file_path (req_code req)]) file_path
        (str_lower (req_language req)) 30") blast
    with assms Inr None have t: "tr' = tr2 @ [TempDirRemoved td]"
      by (auto simp: run_code_def Let_def file_path_def split: sum.splits prod.splits)
    from dispatcher_steps [OF d] obtain evs where
      "tr2 = (tr @ [TempDirCreated td, FileWritten file_path (req_code req)]) @ evs"
      and "list_all (\<lambda>call. inv_timeout call = 30) (subprocess_calls evs)"
      by (auto simp: extends_with_timeout_iff)
    with t show ?thesis
      by (auto simp: extends_with_timeout_iff subprocess_calls_append)
  qed
qed

text \<open>
  C9, as the spec states it, fails: a request that carries \<^verbatim>\<open>timeout_seconds = 1\<close> has its
  process run with the timeout 30.
\<close>

theorem request_timeout_counterexample:
  "spec_timeout_seconds hurried_body = 1
   \<and> post_run looping_host posix_pathlib posix_tempfs [] hurried_body
       = (Inr \<lparr>resp_stdout = '''',
               resp_stderr = ''TimeoutExpired: process exceeded 30 seconds'',
               resp_rc = 124,
               resp_executed_cmd = ''/usr/bin/python3 /tmp/w/main.py'',
               resp_used_filename = ''/tmp/w/main.py''\<rparr>,
          [TempDirCreated ''/tmp/w'',
           FileWritten ''/tmp/w/main.py'' ''while True: pass'',
           SubprocessRun (list_call [''/usr/bin/python3'', ''/tmp/w/main.py''] ''/tmp/w'' 30),
           TempDirRemoved ''/tmp/w''])
   \<and> map inv_timeout
         (subprocess_calls (snd (post_run looping_host posix_pathlib posix_tempfs [] hurried_body)))
       = [30]"
  by code_simp

text \<open>
  C9, amended. The dispatcher gives its timeout argument to every process it runs. The
  request of the endpoint has no timeout field: whatever the body holds, the endpoint
  calls the dispatcher with the timeout 30, which bounds every process step of the
  request.
\<close>

theorem request_timeout_is_default:
  "list_all (\<lambda>call. inv_timeout call = timeout)
     (subprocess_calls
        (drop (length tr) (snd (run_linter_for_language h pl tr file_path language timeout))))
   \<and> list_all (\<lambda>call. inv_timeout call = 30)
       (subprocess_calls (drop (length tr) (snd (post_run h pl fs tr body))))"
proof -
  have "extends_with_timeout timeout tr
          (snd (run_linter_for_language h pl tr file_path language timeout))"
    by (rule dispatcher_steps [of h pl tr file_path language timeout
          "fst (run_linter_for_language h pl tr file_path language timeout)"]) simp
  moreover have "extends_with_timeout 30 tr (snd (post_run h pl fs tr body))"
    unfolding post_run_def
    by (rule run_code_steps [of h pl fs tr "parse_RunRequest body"
          "fst (run_code h pl fs tr (parse_RunRequest body))"]) simp
  ultimately show ?thesis
    by (simp add: extends_with_timeout_def)
qed

theorem request_timeout_is_default_witness:
  "subprocess_calls
     (drop (length ([] :: event list))
        (snd (post_run looping_host posix_pathlib posix_tempfs [] hurried_body)))
     = [list_call [''/usr/bin/python3'', ''/tmp/w/main.py''] ''/tmp/w'' 30]
   \<and> list_all (\<lambda>call. inv_timeout call = 30)
       (subprocess_calls
          (drop (length ([] :: event list))
             (snd (post_run looping_host posix_pathlib posix_tempfs [] hurried_body))))
   \<and> list_all (\<lambda>call. inv_timeout call = 5)
       (subprocess_calls
          (drop (length ([] :: event list))
             (snd (run_linter_for_language looping_host posix_pathlib [] ''/tmp/w/main.py''
                     ''python'' 5))))
   \<and> subprocess_calls
       (drop (length ([] :: event list))
          (snd (run_linter_for_language looping_host posix_pathlib [] ''/tmp/w/main.py''
                  ''python'' 5)))
     = [list_call [''/usr/bin/python3'', ''/tmp/w/main.py''] ''/tmp/w'' 5]"
proof -
  have 1: "subprocess_calls
     (drop (length ([] :: event list))
        (snd (post_run looping_host posix_pathlib posix_tempfs [] hurried_body)))
     = [list_call [''/usr/bin/python3'', ''/tmp/w/main.py''] ''/tmp/w'' 30]"
    by code_simp
  have 2: "subprocess_calls
       (drop (length ([] :: event list))
          (snd (run_linter_for_language looping_host posix_pathlib [] ''/tmp/w/main.py''
                  ''python'' 5)))
     = [list_call [''/usr/bin/python3'', ''/tmp/w/main.py''] ''/tmp/w'' 5]"
    by code_simp
  from request_timeout_is_default [of 5 "[]" looping_host posix_pathlib "''/tmp/w/main.py''"
      "''python''" posix_tempfs hurried_body] 1 2
  show ?thesis by blast
qed

end
